theory Spec2Isabelle
  imports Main
begin

section \<open>Data model of the supervisor\<close>

text \<open>
  The run state and the last action of a service are the two enumerations of the
  source (\<^verbatim>\<open>RunState\<close>, \<^verbatim>\<open>LastAction\<close>). The methods of \<^verbatim>\<open>Service\<close> are
  named \<open>Service_Start\<close>, \<open>Service_StartSimple\<close> and \<open>Service_NeedsSatisfied\<close>,
  since \<open>Start\<close> and \<open>Stop\<close> are already the constants of \<^verbatim>\<open>LastAction\<close>.
\<close>

datatype RunState = NotStarted | Starting | Started | Stopped | Errored

fun RunState_String :: "RunState \<Rightarrow> string" where
  "RunState_String NotStarted = ''not started''"
| "RunState_String Starting = ''being started''"
| "RunState_String Started = ''already started''"
| "RunState_String Stopped = ''stopped''"
| "RunState_String Errored = ''errored''"

datatype LastAction = Unknown | Start | Stop | Reload | Restart | Forcekill

record Service =
  Name :: string
  AutoStart :: bool
  Provides :: "string list"
  Needs :: "string list"
  Description :: string
  State :: RunState
  LastAction :: LastAction
  LastActionAt :: int
  LastMessage :: string
  LastKnownPID :: int
  Type :: string
  PIDFile :: string
  Startup :: string
  Shutdown :: string
  CheckAlive :: string
  Deleted :: bool

text \<open>\<^verbatim>\<open>StartupService\<close> has four fields of the same names; they carry a suffix here.\<close>

record StartupService =
  Name_ss :: string
  AutoStart_ss :: bool
  Provides_ss :: "string list"
  Needs_ss :: "string list"

text \<open>The zero value \<^verbatim>\<open>Service{}\<close>.\<close>

definition Service_zero :: Service where
  "Service_zero = \<lparr>Name = [], AutoStart = False, Provides = [], Needs = [],
     Description = [], State = NotStarted, LastAction = Unknown, LastActionAt = 0,
     LastMessage = [], LastKnownPID = 0, Type = [], PIDFile = [], Startup = [],
     Shutdown = [], CheckAlive = [], Deleted = False\<rparr>"

subsection \<open>Errors\<close>

text \<open>
  A Go \<^verbatim>\<open>error\<close> is \<open>go_error option\<close>, \<open>None\<close> being \<^verbatim>\<open>nil\<close>. The classes
  the code tells apart are kept as constructors: \<open>ExitError\<close> is
  \<^verbatim>\<open>*exec.ExitError\<close> (the command ran and left with a non-zero status),
  \<open>NotExist\<close> an error for which \<^verbatim>\<open>os.IsNotExist\<close> holds, \<open>Errorf\<close> a value
  built by \<^verbatim>\<open>fmt.Errorf\<close>, and \<open>SysError\<close> every other error (a failed
  launch, a failed wait, a failed read). The argument is the text of \<^verbatim>\<open>err.Error()\<close>.
\<close>

datatype go_error = ExitError string | NotExist string | Errorf string | SysError string

fun Error :: "go_error \<Rightarrow> string" where
  "Error (ExitError m) = m"
| "Error (NotExist m) = m"
| "Error (Errorf m) = m"
| "Error (SysError m) = m"

fun IsNotExist :: "go_error option \<Rightarrow> bool" where
  "IsNotExist (Some (NotExist m)) = True"
| "IsNotExist e = False"

fun is_ExitError :: "go_error option \<Rightarrow> bool" where
  "is_ExitError (Some (ExitError m)) = True"
| "is_ExitError e = False"

definition errWaitNoChild :: string where
  "errWaitNoChild = ''wait: no child processes''"

definition errWaitIDNoChild :: string where
  "errWaitIDNoChild = ''waitid: no child processes''"

subsection \<open>The operating system and the shared state\<close>

text \<open>
  What the operating system answers is a parameter of every operation: the result of
  \<^verbatim>\<open>os.Stat\<close> and \<^verbatim>\<open>ioutil.ReadFile\<close> on a path, the error of \<^verbatim>\<open>ps.FindProcess\<close>
  on a pid, and, for a shell command \<open>c\<close>, the result of
  \<^verbatim>\<open>exec.Command("sh", "-c", c)\<close> under \<^verbatim>\<open>Run\<close>, \<^verbatim>\<open>Start\<close> (an error or the pid
  of the child) and \<^verbatim>\<open>Wait\<close>. Every command is taken to return.
\<close>

record os =
  Stat :: "string \<Rightarrow> go_error option"
  ReadFile :: "string \<Rightarrow> go_error + string"
  FindProcess :: "int \<Rightarrow> go_error option"
  Run :: "string \<Rightarrow> go_error option"
  StartProc :: "string \<Rightarrow> go_error + int"
  Wait :: "string \<Rightarrow> go_error option"

text \<open>
  The effects the code has on the outside are recorded in a trace, one event for each
  place of the source that has one: the three synchronous runs of a shell command
  (in \<^verbatim>\<open>Start\<close>, \<^verbatim>\<open>processAliveByCmd\<close> and \<^verbatim>\<open>ExecShutdown\<close>), the asynchronous
  launch in \<^verbatim>\<open>StartSimple\<close>, the statement \<^verbatim>\<open>go s.StartSimple()\<close>, and the write
  \<^verbatim>\<open>startedTypes[t] = true\<close>. Log output is not modelled.
\<close>

datatype event =
    RunStartup string
  | LaunchStartup string
  | RunCheckAlive string
  | RunShutdown string
  | GoStartSimple string
  | SetStarted string

text \<open>
  The global \<^verbatim>\<open>LoadedServices\<close> maps a name to a pointer to its record; its
  declaration is not part of the sources at hand, so it is a component of the state.
  A name without an entry yields the nil pointer, and every access through it panics:
  the operations return \<open>None\<close> there.
\<close>

record sys =
  LoadedServices :: "string \<rightharpoonup> Service"
  trace :: "event list"

definition log_event :: "event \<Rightarrow> sys \<Rightarrow> sys" where
  "log_event e \<sigma> = \<sigma>\<lparr>trace := trace \<sigma> @ [e]\<rparr>"

definition update_loaded :: "string \<Rightarrow> (Service \<Rightarrow> Service) \<Rightarrow> sys \<Rightarrow> sys option" where
  "update_loaded n f \<sigma> =
     (case LoadedServices \<sigma> n of
        None \<Rightarrow> None
      | Some r \<Rightarrow> Some (\<sigma>\<lparr>LoadedServices := (LoadedServices \<sigma>)(n \<mapsto> f r)\<rparr>))"

section \<open>Process supervisor\<close>

text \<open>
  \<^verbatim>\<open>func (s Service) Start() error\<close>. The receiver is a copy, so the assignments
  to \<^verbatim>\<open>s.State\<close> are lost with it and only the writes through
  \<^verbatim>\<open>LoadedServices[s.Name]\<close> remain. \<open>t0\<close> and \<open>t1\<close> are the two readings of the
  clock. The result is the returned error and the new state.
\<close>

definition Service_Start ::
  "os \<Rightarrow> int \<Rightarrow> int \<Rightarrow> Service \<Rightarrow> sys \<Rightarrow> (go_error option \<times> sys) option" where
  "Service_Start os t0 t1 s \<sigma> =
     (if State s \<noteq> NotStarted
      then Some (Some (Errorf (''Service '' @ Name s @ '' is '' @ RunState_String (State s))), \<sigma>)
      else
        (case update_loaded (Name s)
                (\<lambda>r. r\<lparr>State := Starting, LastActionAt := t0, LastAction := Start\<rparr>) \<sigma> of
           None \<Rightarrow> None
         | Some \<sigma>1 \<Rightarrow>
             (let \<sigma>2 = log_event (RunStartup (Startup s)) \<sigma>1 in
              (case Run os (Startup s) of
                 Some err \<Rightarrow>
                   (if Error err = errWaitNoChild \<or> Error err = errWaitIDNoChild
                    then map_option (Pair None)
                           (update_loaded (Name s)
                              (\<lambda>r. r\<lparr>State := Started, LastActionAt := t1, LastAction := Start\<rparr>) \<sigma>2)
                    else map_option (Pair (Some err))
                           (update_loaded (Name s)
                              (\<lambda>r. r\<lparr>State := Errored, LastActionAt := t1, LastAction := Start\<rparr>) \<sigma>2))
               | None \<Rightarrow>
                   map_option (Pair None)
                     (update_loaded (Name s)
                        (\<lambda>r. r\<lparr>State := Started, LastActionAt := t1, LastAction := Start\<rparr>) \<sigma>2)))))"

text \<open>
  \<^verbatim>\<open>func (s Service) StartSimple()\<close> runs in a goroutine of its own and blocks in
  \<^verbatim>\<open>cmd.Wait()\<close> for the life of the process. It is given in two parts, so that the
  second can be applied to the registry as it is when the process exits:
  \<open>StartSimple_launch\<close> is the function up to the call of \<^verbatim>\<open>cmd.Wait()\<close> (its
  boolean tells whether the launch succeeded), \<open>StartSimple_exit\<close> is the rest.
\<close>

definition StartSimple_launch :: "os \<Rightarrow> int \<Rightarrow> Service \<Rightarrow> sys \<Rightarrow> (bool \<times> sys) option" where
  "StartSimple_launch os t0 s \<sigma> =
     (case update_loaded (Name s)
             (\<lambda>r. r\<lparr>State := Starting, LastActionAt := t0, LastAction := Start,
                     LastKnownPID := 0\<rparr>) \<sigma> of
        None \<Rightarrow> None
      | Some \<sigma>1 \<Rightarrow>
          (let \<sigma>2 = log_event (LaunchStartup (Startup s)) \<sigma>1 in
           (case StartProc os (Startup s) of
              Inl err \<Rightarrow>
                map_option (Pair False)
                  (update_loaded (Name s)
                     (\<lambda>r. r\<lparr>State := Errored, LastMessage := Error err, LastKnownPID := 0\<rparr>) \<sigma>2)
            | Inr pid \<Rightarrow>
                map_option (Pair True)
                  (update_loaded (Name s)
                     (\<lambda>r. r\<lparr>State := Started, LastKnownPID := pid\<rparr>) \<sigma>2))))"

definition StartSimple_exit :: "os \<Rightarrow> int \<Rightarrow> Service \<Rightarrow> sys \<Rightarrow> sys option" where
  "StartSimple_exit os t1 s \<sigma> =
     (case Wait os (Startup s) of
        Some err \<Rightarrow>
          update_loaded (Name s)
            (\<lambda>r. r\<lparr>State := Stopped, LastMessage := Error err, LastKnownPID := 0\<rparr>) \<sigma>
      | None \<Rightarrow>
          update_loaded (Name s)
            (\<lambda>r. r\<lparr>State := Stopped, LastKnownPID := 0, LastActionAt := t1,
                    LastAction := Stop\<rparr>) \<sigma>)"

definition Service_StartSimple :: "os \<Rightarrow> int \<Rightarrow> int \<Rightarrow> Service \<Rightarrow> sys \<Rightarrow> sys option" where
  "Service_StartSimple os t0 t1 s \<sigma> =
     (case StartSimple_launch os t0 s \<sigma> of
        None \<Rightarrow> None
      | Some (launched, \<sigma>') \<Rightarrow> if launched then StartSimple_exit os t1 s \<sigma>' else Some \<sigma>')"

section \<open>Functions of the Go library\<close>

text \<open>
  The program calls a few functions of Go's standard library on its strings. They are
  given here as the library documents them; a Go string is a sequence of bytes, as
  \<open>string\<close> is.
\<close>

definition HasPrefix :: "string \<Rightarrow> string \<Rightarrow> bool" where
  "HasPrefix s p = (take (length p) s = p)"

definition TrimPrefix :: "string \<Rightarrow> string \<Rightarrow> string" where
  "TrimPrefix s p = (if HasPrefix s p then drop (length p) s else s)"

text \<open>
  \<^verbatim>\<open>TrimSpace\<close> removes leading and trailing white space as Unicode defines it
  (\<^verbatim>\<open>unicode.IsSpace\<close>). The table holds the UTF-8 encoding of each such code point:
  tab, line feed, vertical tab, form feed, carriage return, space, U+0085, U+00A0,
  U+1680, U+2000 to U+200A, U+2028, U+2029, U+202F, U+205F and U+3000.
\<close>

definition white_space :: "string list" where
  "white_space =
     [[CHR 0x09], [CHR 0x0A], [CHR 0x0B], [CHR 0x0C], [CHR 0x0D], [CHR 0x20],
      [CHR 0xC2, CHR 0x85], [CHR 0xC2, CHR 0xA0],
      [CHR 0xE1, CHR 0x9A, CHR 0x80],
      [CHR 0xE2, CHR 0x80, CHR 0x80], [CHR 0xE2, CHR 0x80, CHR 0x81],
      [CHR 0xE2, CHR 0x80, CHR 0x82], [CHR 0xE2, CHR 0x80, CHR 0x83],
      [CHR 0xE2, CHR 0x80, CHR 0x84], [CHR 0xE2, CHR 0x80, CHR 0x85],
      [CHR 0xE2, CHR 0x80, CHR 0x86], [CHR 0xE2, CHR 0x80, CHR 0x87],
      [CHR 0xE2, CHR 0x80, CHR 0x88], [CHR 0xE2, CHR 0x80, CHR 0x89],
      [CHR 0xE2, CHR 0x80, CHR 0x8A],
      [CHR 0xE2, CHR 0x80, CHR 0xA8], [CHR 0xE2, CHR 0x80, CHR 0xA9],
      [CHR 0xE2, CHR 0x80, CHR 0xAF],
      [CHR 0xE2, CHR 0x81, CHR 0x9F],
      [CHR 0xE3, CHR 0x80, CHR 0x80]]"

text \<open>\<open>strip_first ws s\<close> removes from the front of \<open>s\<close> the first entry of \<open>ws\<close> that
  \<open>s\<close> starts with.\<close>

fun strip_first :: "string list \<Rightarrow> string \<Rightarrow> string option" where
  "strip_first [] s = None"
| "strip_first (w # ws) s =
     (if w \<noteq> [] \<and> take (length w) s = w then Some (drop (length w) s)
      else strip_first ws s)"

lemma strip_first_shorter: "strip_first ws s = Some r \<Longrightarrow> length r < length s"
proof (induction ws)
  case Nil
  then show ?case by simp
next
  case (Cons w ws)
  show ?case
  proof (cases "w \<noteq> [] \<and> take (length w) s = w")
    case True
    then have "s \<noteq> []" by auto
    moreover from True Cons.prems have "r = drop (length w) s" by simp
    ultimately show ?thesis using True by simp
  next
    case False
    with Cons show ?thesis by auto
  qed
qed

function TrimLeftSpace :: "string list \<Rightarrow> string \<Rightarrow> string" where
  "TrimLeftSpace ws s =
     (case strip_first ws s of None \<Rightarrow> s | Some r \<Rightarrow> TrimLeftSpace ws r)"
  by pat_completeness auto
termination
  by (relation "measure (\<lambda>(ws, s). length s)") (auto simp: strip_first_shorter)

declare TrimLeftSpace.simps [simp del]

definition TrimSpace :: "string \<Rightarrow> string" where
  "TrimSpace s =
     rev (TrimLeftSpace (map rev white_space) (rev (TrimLeftSpace white_space s)))"

text \<open>
  \<^verbatim>\<open>strings.Split(s, ",")\<close>, for the one-byte separators the program uses: the
  pieces between the separators, a single empty piece for the empty string.
\<close>

fun Split :: "string \<Rightarrow> char \<Rightarrow> string list" where
  "Split [] sep = [[]]"
| "Split (c # cs) sep =
     (if c = sep then [] # Split cs sep
      else (case Split cs sep of [] \<Rightarrow> [[c]] | w # ws \<Rightarrow> (c # w) # ws))"

text \<open>
  \<^verbatim>\<open>strconv.Atoi\<close>: an optional sign, then one or more decimal digits, with a value
  that fits the 64-bit \<^verbatim>\<open>int\<close>. The text of its error is not looked at by the
  program.
\<close>

definition is_digit :: "char \<Rightarrow> bool" where
  "is_digit c = (c \<in> set ''0123456789'')"

definition digit_val :: "char \<Rightarrow> nat" where
  "digit_val c = (of_char c :: nat) - 48"

fun parse_digits :: "nat \<Rightarrow> string \<Rightarrow> nat option" where
  "parse_digits n [] = Some n"
| "parse_digits n (c # cs) =
     (if is_digit c then parse_digits (n * 10 + digit_val c) cs else None)"

definition Atoi :: "string \<Rightarrow> go_error + int" where
  "Atoi s =
     (let body = (case s of [] \<Rightarrow> [] | c # cs \<Rightarrow> if c = CHR ''-'' \<or> c = CHR ''+'' then cs else s)
      in if body = [] then Inl (SysError ''invalid syntax'')
         else (case parse_digits 0 body of
                 None \<Rightarrow> Inl (SysError ''invalid syntax'')
               | Some n \<Rightarrow>
                   (let v = (if take 1 s = ''-'' then - int n else int n)
                    in if v < - (2 ^ 63) \<or> 2 ^ 63 - 1 < v
                       then Inl (SysError ''value out of range'')
                       else Inr v)))"

text \<open>The verb \<^verbatim>\<open>%d\<close> of \<^verbatim>\<open>fmt\<close>: the decimal digits, after a minus sign for a
  negative number.\<close>

function digits :: "nat \<Rightarrow> string" where
  "digits n =
     (if n < 10 then [''0123456789'' ! n]
      else digits (n div 10) @ [''0123456789'' ! (n mod 10)])"
  by pat_completeness auto
termination
  by (relation "measure (\<lambda>n. n)") auto

declare digits.simps [simp del]

definition itoa :: "int \<Rightarrow> string" where
  "itoa i = (if i < 0 then CHR ''-'' # digits (nat (- i)) else digits (nat i))"

section \<open>Liveness prober\<close>

definition getProcessPid :: "os \<Rightarrow> Service \<Rightarrow> int \<times> go_error option" where
  "getProcessPid os s =
     (case ReadFile os (PIDFile s) of
        Inl err \<Rightarrow> (0, Some err)
      | Inr d \<Rightarrow>
          (case Atoi (TrimSpace d) of
             Inl err \<Rightarrow> (0, Some (Errorf (''error parsing pid from: '' @ PIDFile s)))
           | Inr pid \<Rightarrow> (pid, None)))"

definition processAliveByPid :: "os \<Rightarrow> int \<Rightarrow> bool \<times> go_error option" where
  "processAliveByPid os pid =
     (if pid = 0 then (False, Some (Errorf ''why are you asking me if PID 0 is alive ?''))
      else (case FindProcess os pid of
              Some err \<Rightarrow> (False, Some err)
            | None \<Rightarrow> (True, None)))"

text \<open>
  In \<^verbatim>\<open>processAliveByCmd\<close> and \<^verbatim>\<open>ExecShutdown\<close> the error of \<^verbatim>\<open>cmd.Run()\<close> is
  returned whenever it is not nil; the test for \<^verbatim>\<open>*exec.ExitError\<close> comes after
  that return, as in the source.
\<close>

definition processAliveByCmd :: "os \<Rightarrow> string \<Rightarrow> sys \<Rightarrow> (bool \<times> go_error option) \<times> sys" where
  "processAliveByCmd os command \<sigma> =
     (let \<sigma>1 = log_event (RunCheckAlive command) \<sigma>;
          err = Run os command
      in if err \<noteq> None then ((False, err), \<sigma>1)
         else if is_ExitError err then ((False, None), \<sigma>1)
         else ((True, None), \<sigma>1))"

definition ExecShutdown :: "os \<Rightarrow> string \<Rightarrow> sys \<Rightarrow> go_error option \<times> sys" where
  "ExecShutdown os command \<sigma> =
     (let \<sigma>1 = log_event (RunShutdown command) \<sigma>;
          err = Run os command
      in if err \<noteq> None then (err, \<sigma>1)
         else if is_ExitError err then (None, \<sigma>1)
         else (None, \<sigma>1))"

definition checkIfProcessAlive ::
  "os \<Rightarrow> Service \<Rightarrow> sys \<Rightarrow> (bool \<times> int \<times> go_error option) \<times> sys" where
  "checkIfProcessAlive os s \<sigma> =
     (if PIDFile s \<noteq> [] then
        (if IsNotExist (Stat os (PIDFile s)) then ((False, 0, None), \<sigma>)
         else
           (case getProcessPid os s of
              (pid, Some err) \<Rightarrow> ((False, 0, Some err), \<sigma>)
            | (pid, None) \<Rightarrow>
                (case processAliveByPid os pid of
                   (running, Some err) \<Rightarrow> ((False, 0, Some err), \<sigma>)
                 | (running, None) \<Rightarrow> ((running, pid, None), \<sigma>))))
      else if CheckAlive s \<noteq> [] then
        (case processAliveByCmd os (CheckAlive s) \<sigma> of
           ((running, Some err), \<sigma>1) \<Rightarrow> ((False, 0, Some err), \<sigma>1)
         | ((running, None), \<sigma>1) \<Rightarrow> ((running, 0, None), \<sigma>1))
      else if Type s = ''simple'' then ((State s = Started, 0, None), \<sigma>)
      else ((True, 0, Some (Errorf ''cannot determine process state'')), \<sigma>))"

section \<open>Control operations\<close>

text \<open>
  \<^verbatim>\<open>CheckAndStartService\<close> and \<^verbatim>\<open>CheckAndStopService\<close> read the fields of the record
  their argument points to and write through \<^verbatim>\<open>LoadedServices[s.Name]\<close>. The fields
  they read after a write (\<^verbatim>\<open>Type\<close>, \<^verbatim>\<open>State\<close>, \<^verbatim>\<open>Shutdown\<close>, \<^verbatim>\<open>LastKnownPID\<close>)
  are not among those written before the read, so the argument is a value here. The
  statement \<^verbatim>\<open>go s.StartSimple()\<close> only leaves its event: the goroutine runs on its
  own. The error of \<^verbatim>\<open>s.Start()\<close> is dropped, as in the source.
\<close>

definition CheckAndStartService ::
  "os \<Rightarrow> int \<Rightarrow> int \<Rightarrow> Service \<Rightarrow> sys \<Rightarrow> (go_error option \<times> sys) option" where
  "CheckAndStartService os t0 t1 s \<sigma> =
     (case checkIfProcessAlive os s \<sigma> of
        ((alive, pid, err), \<sigma>1) \<Rightarrow>
          if err \<noteq> None then Some (err, \<sigma>1)
          else if alive \<and> pid \<noteq> 0
          then Some (Some (Errorf (''process '' @ Name s @ '' already running as PID '' @ itoa pid)), \<sigma>1)
          else if alive
          then Some (Some (Errorf (''process '' @ Name s @ '' already running'')), \<sigma>1)
          else if Type s = ''simple''
          then Some (None, log_event (GoStartSimple (Name s)) \<sigma>1)
          else (case Service_Start os t0 t1 s \<sigma>1 of
                  None \<Rightarrow> None
                | Some (e, \<sigma>2) \<Rightarrow> Some (None, \<sigma>2)))"

text \<open>The two ends of \<^verbatim>\<open>CheckAndStopService\<close>: the state written for the error of the
  stop command, and that error returned.\<close>

definition stop_outcome :: "string \<Rightarrow> go_error option \<times> sys \<Rightarrow> (go_error option \<times> sys) option" where
  "stop_outcome n r =
     (case r of
        (err, \<sigma>) \<Rightarrow>
          if err \<noteq> None
          then map_option (Pair err) (update_loaded n (\<lambda>r. r\<lparr>State := Errored\<rparr>) \<sigma>)
          else map_option (Pair err) (update_loaded n (\<lambda>r. r\<lparr>State := Stopped\<rparr>) \<sigma>))"

definition CheckAndStopService ::
  "os \<Rightarrow> int \<Rightarrow> Service \<Rightarrow> sys \<Rightarrow> (go_error option \<times> sys) option" where
  "CheckAndStopService os t s \<sigma> =
     (case update_loaded (Name s) (\<lambda>r. r\<lparr>LastActionAt := t, LastAction := Stop\<rparr>) \<sigma> of
        None \<Rightarrow> None
      | Some \<sigma>1 \<Rightarrow>
          if Type s = ''simple'' then
            (if State s = Starting \<or> State s = Started then
               stop_outcome (Name s)
                 (if Shutdown s \<noteq> [] then ExecShutdown os (Shutdown s) \<sigma>1
                  else ExecShutdown os (''pkill '' @ itoa (LastKnownPID s)) \<sigma>1)
             else
               map_option
                 (Pair (Some (Errorf (''process '' @ Name s @ '' doesn'' @ [CHR 0x27] @ ''t seems to be alive ?''))))
                 (update_loaded (Name s) (\<lambda>r. r\<lparr>State := Stopped\<rparr>) \<sigma>1))
          else
            stop_outcome (Name s)
              (if Shutdown s \<noteq> [] then ExecShutdown os (Shutdown s) \<sigma>1
               else (Some (Errorf (''no Shutdown: command defined for '' @ Name s @ '', I don'' @ [CHR 0x27] @ ''t know how to kill it'')), \<sigma>1)))"

section \<open>Dependency-gated launcher\<close>

text \<open>
  \<^verbatim>\<open>startedTypes\<close> is a \<^verbatim>\<open>map[ServiceType]bool\<close>: reading a key that was never
  written gives \<^verbatim>\<open>false\<close>, so the map is a function into \<open>bool\<close>.
\<close>

type_synonym started = "string \<Rightarrow> bool"

fun needs_loop :: "string list \<Rightarrow> started \<Rightarrow> bool" where
  "needs_loop [] started = True"
| "needs_loop (st # rest) started = (if \<not> started st then False else needs_loop rest started)"

definition Service_NeedsSatisfied :: "Service \<Rightarrow> started \<Rightarrow> bool" where
  "Service_NeedsSatisfied s started = needs_loop (Needs s) started"

text \<open>
  The wait loop of a launcher unit. The other units write \<^verbatim>\<open>startedTypes\<close> while
  this one waits, so the loop is given what it sees: \<open>obs i\<close> is the map at the poll
  number \<open>i\<close>. The result is the last value of \<^verbatim>\<open>satisfied\<close>, the number of polls
  and the seconds slept.
\<close>

function wait_loop :: "(nat \<Rightarrow> started) \<Rightarrow> Service \<Rightarrow> bool \<Rightarrow> nat \<Rightarrow> nat \<Rightarrow> bool \<times> nat \<times> nat" where
  "wait_loop obs s satisfied tries slept =
     (if satisfied = False \<and> tries < 60
      then wait_loop obs s (Service_NeedsSatisfied s (obs tries)) (tries + 1) (slept + 2)
      else (satisfied, tries, slept))"
  by pat_completeness auto
termination
  by (relation "measure (\<lambda>(obs, s, satisfied, tries, slept). 60 - tries)") auto

declare wait_loop.simps [simp del]

text \<open>The start step: the conditional after the loop. The error of
  \<^verbatim>\<open>s.Start()\<close> is only logged.\<close>

definition start_step :: "os \<Rightarrow> int \<Rightarrow> int \<Rightarrow> Service \<Rightarrow> sys \<Rightarrow> sys option" where
  "start_step os t0 t1 s \<sigma> =
     (if State s = NotStarted \<and> AutoStart s then
        (if Type s = ''oneshot'' \<or> Type s = ''forking''
         then map_option snd (Service_Start os t0 t1 s \<sigma>)
         else if Type s = ''simple'' then Some (log_event (GoStartSimple (Name s)) \<sigma>)
         else Some \<sigma>)
      else Some \<sigma>)"

fun mark_provided :: "string list \<Rightarrow> started \<times> sys \<Rightarrow> started \<times> sys" where
  "mark_provided [] (started, \<sigma>) = (started, \<sigma>)"
| "mark_provided (t # ts) (started, \<sigma>) =
     mark_provided ts (started(t := True), log_event (SetStarted t) \<sigma>)"

text \<open>
  The body of the goroutine of \<^verbatim>\<open>StartServices\<close>, for the record that
  \<^verbatim>\<open>LoadedServices[s.Name]\<close> points to (the name \<open>n\<close>). \<open>\<sigma>\<close> is the state when the
  wait loop has ended, \<open>started\<close> the map when the unit takes the lock to write it.
  The result is that of the wait loop, the map and the state.
\<close>

definition launcher ::
  "os \<Rightarrow> int \<Rightarrow> int \<Rightarrow> (nat \<Rightarrow> started) \<Rightarrow> started \<Rightarrow> string \<Rightarrow> sys
     \<Rightarrow> ((bool \<times> nat \<times> nat) \<times> started \<times> sys) option" where
  "launcher os t0 t1 obs started n \<sigma> =
     (case LoadedServices \<sigma> n of
        None \<Rightarrow> None
      | Some s \<Rightarrow>
          (let w = wait_loop obs s False 0 0 in
           (case start_step os t0 t1 s \<sigma> of
              None \<Rightarrow> None
            | Some \<sigma>1 \<Rightarrow> Some (w, mark_provided (Provides s) (started, \<sigma>1)))))"

text \<open>
  The two loops of \<^verbatim>\<open>StartServices\<close> start one unit for every entry of every list of
  the global \<^verbatim>\<open>StartupServices\<close>, the index from a capability to the services that
  provide it. Its declaration is not part of the sources at hand: it is a parameter,
  the list of its keys and values in the order the iteration yields them.
  \<open>StartServices_units\<close> is the list of the names the units are started for.
\<close>

definition StartServices_units :: "(string \<times> StartupService list) list \<Rightarrow> string list" where
  "StartServices_units StartupServices =
     concat (map (\<lambda>(t, services). map Name_ss services) StartupServices)"

text \<open>
  One schedule of the units: each runs to its end before the next one starts, so that
  a unit sees the same map at every poll.
\<close>

fun run_units ::
  "os \<Rightarrow> int \<Rightarrow> int \<Rightarrow> string list \<Rightarrow> started \<times> sys \<Rightarrow> (started \<times> sys) option" where
  "run_units os t0 t1 [] (started, \<sigma>) = Some (started, \<sigma>)"
| "run_units os t0 t1 (n # ns) (started, \<sigma>) =
     (case launcher os t0 t1 (\<lambda>i. started) started n \<sigma> of
        None \<Rightarrow> None
      | Some (w, r) \<Rightarrow> run_units os t0 t1 ns r)"

section \<open>Service definition files\<close>

definition parseLine :: "string \<Rightarrow> Service \<Rightarrow> go_error option \<times> Service" where
  "parseLine line s =
     (if HasPrefix line ''Needs:'' then
        (None, s\<lparr>Needs := Needs s @ map TrimSpace (Split (TrimPrefix line ''Needs:'') CHR '','')\<rparr>)
      else if HasPrefix line ''Provides:'' then
        (None, s\<lparr>Provides := Provides s @ map TrimSpace (Split (TrimPrefix line ''Provides:'') CHR '','')\<rparr>)
      else if HasPrefix line ''Startup:'' then
        (if Startup s \<noteq> [] then (Some (Errorf ''Startup already set''), s)
         else (None, s\<lparr>Startup := TrimSpace (TrimPrefix line ''Startup:'')\<rparr>))
      else if HasPrefix line ''Shutdown:'' then
        (if Shutdown s \<noteq> [] then (Some (Errorf ''Shutdown already set''), s)
         else (None, s\<lparr>Shutdown := TrimSpace (TrimPrefix line ''Shutdown:'')\<rparr>))
      else if HasPrefix line ''Name:'' then
        (if Name s = [] then (None, s\<lparr>Name := TrimSpace (TrimPrefix line ''Name:'')\<rparr>)
         else (None, s))
      else if HasPrefix line ''Description:'' then
        (if Description s = []
         then (None, s\<lparr>Description := TrimSpace (TrimPrefix line ''Description:'')\<rparr>)
         else (None, s))
      else if HasPrefix line ''PIDFile:'' then
        (if PIDFile s = [] then (None, s\<lparr>PIDFile := TrimSpace (TrimPrefix line ''PIDFile:'')\<rparr>)
         else (None, s))
      else if HasPrefix line ''Type:'' then
        (if Type s = [] then
           (let serviceType = TrimSpace (TrimPrefix line ''Type:'') in
            if serviceType = ''simple'' then (None, s\<lparr>Type := ''simple''\<rparr>)
            else if serviceType = ''forking'' then (None, s\<lparr>Type := ''forking''\<rparr>)
            else if serviceType = ''oneshot'' then (None, s\<lparr>Type := ''oneshot''\<rparr>)
            else (None, s\<lparr>Type := ''simple''\<rparr>))
         else (None, s))
      else (None, s))"

text \<open>
  \<^verbatim>\<open>checkSanity\<close> tests the name, then each capability provided, then each one
  needed, with \<^verbatim>\<open>ipc.IsCustASCII\<close>, a function of a package that is not part of the
  sources at hand: it is the parameter \<open>IsCustASCII\<close>.
\<close>

definition checkSanity :: "(string \<Rightarrow> bool) \<Rightarrow> Service \<Rightarrow> string \<Rightarrow> go_error option" where
  "checkSanity IsCustASCII service filename =
     (if \<not> IsCustASCII (Name service)
      then Some (Errorf (filename @ '' has invalid service name '' @ [CHR 0x27] @ Name service
                   @ [CHR 0x27] @ '', only a-Z0-9_-. allowed''))
      else
        (case find (\<lambda>provide. \<not> IsCustASCII provide) (Provides service) of
           Some provide \<Rightarrow>
             Some (Errorf (filename @ '' has invalid provides '' @ [CHR 0x27] @ provide
                     @ [CHR 0x27] @ '', only a-Z0-9_-. allowed''))
         | None \<Rightarrow>
             (case find (\<lambda>need. \<not> IsCustASCII need) (Needs service) of
                Some need \<Rightarrow>
                  Some (Errorf (filename @ '' has invalid needs '' @ [CHR 0x27] @ need
                          @ [CHR 0x27] @ '', only a-Z0-9_-. allowed''))
              | None \<Rightarrow> None)))"

text \<open>
  \<^verbatim>\<open>ParseConfig\<close> reads with \<^verbatim>\<open>ReadString('\n')\<close> until the reader fails. What the
  reader yields is a list of lines, each read without an error, and then either the
  rest of the input together with \<^verbatim>\<open>io.EOF\<close> or another error. The error of
  \<^verbatim>\<open>parseLine\<close> is only logged.
\<close>

datatype reader_end = EOF string | ReadError go_error

fun parse_lines :: "string list \<Rightarrow> Service \<Rightarrow> Service" where
  "parse_lines [] s = s"
| "parse_lines (line # rest) s = parse_lines rest (snd (parseLine line s))"

definition ParseConfig ::
  "(string \<Rightarrow> bool) \<Rightarrow> string list \<times> reader_end \<Rightarrow> string \<Rightarrow> Service \<times> go_error option" where
  "ParseConfig IsCustASCII r filename =
     (case r of
        (lines, ReadError err) \<Rightarrow> (Service_zero, Some err)
      | (lines, EOF line) \<Rightarrow>
          (let s = snd (parseLine line (parse_lines lines Service_zero)) in
           (case checkSanity IsCustASCII s filename of
              Some err \<Rightarrow> (Service_zero, Some err)
            | None \<Rightarrow> (s, None))))"

text \<open>A reader over a text held in memory: the lines with their line feed, then the
  rest at the end of the input.\<close>

fun read_all :: "string \<Rightarrow> string \<Rightarrow> string list \<times> reader_end" where
  "read_all cur [] = ([], EOF cur)"
| "read_all cur (c # cs) =
     (if c = CHR 0x0A
      then (case read_all [] cs of (lines, e) \<Rightarrow> ((cur @ [c]) # lines, e))
      else read_all (cur @ [c]) cs)"

section \<open>Example inputs\<close>

definition os_quiet :: os where
  "os_quiet = \<lparr>Stat = (\<lambda>p. None), ReadFile = (\<lambda>p. Inr ''999\<newline>''), FindProcess = (\<lambda>p. None),
     Run = (\<lambda>c. None), StartProc = (\<lambda>c. Inr 4242), Wait = (\<lambda>c. None)\<rparr>"

definition os_reaped :: os where
  "os_reaped = os_quiet\<lparr>Run := (\<lambda>c. Some (SysError ''wait: no child processes''))\<rparr>"

definition svc_web :: Service where
  "svc_web = Service_zero\<lparr>Name := ''web'', Type := ''simple'', State := Started,
     PIDFile := ''/run/web.pid'', Startup := ''webd''\<rparr>"

definition svc_db :: Service where
  "svc_db = Service_zero\<lparr>Name := ''db'', Type := ''forking'', Startup := ''dbd --daemon''\<rparr>"

definition sys_boot :: sys where
  "sys_boot = \<lparr>LoadedServices = [''web'' \<mapsto> svc_web, ''db'' \<mapsto> svc_db], trace = []\<rparr>"

definition started_none :: started where
  "started_none = (\<lambda>t. False)"

definition obs_never :: "nat \<Rightarrow> started" where
  "obs_never = (\<lambda>i t. False)"

definition obs_late :: "nat \<Rightarrow> started" where
  "obs_late = (\<lambda>i t. 3 \<le> i)"

definition svc_dns :: Service where
  "svc_dns = Service_zero\<lparr>Name := ''dns'', AutoStart := True, Provides := [''dns''],
     Needs := [''net''], Type := ''oneshot'', Startup := ''named''\<rparr>"

definition sys_dns :: sys where
  "sys_dns = \<lparr>LoadedServices = [''dns'' \<mapsto> svc_dns], trace = []\<rparr>"

definition svc_net :: Service where
  "svc_net = Service_zero\<lparr>Name := ''net'', AutoStart := True, Provides := [''net'', ''dns''],
     Type := ''oneshot'', Startup := ''ifup''\<rparr>"

definition sys_net :: sys where
  "sys_net = \<lparr>LoadedServices = [''net'' \<mapsto> svc_net], trace = []\<rparr>"

definition startup_net :: StartupService where
  "startup_net = \<lparr>Name_ss = ''net'', AutoStart_ss = True, Provides_ss = [''net'', ''dns''],
     Needs_ss = []\<rparr>"

definition index_net :: "(string \<times> StartupService list) list" where
  "index_net = [(''net'', [startup_net]), (''dns'', [startup_net])]"

definition os_exit1 :: os where
  "os_exit1 = os_quiet\<lparr>Run := (\<lambda>c. Some (ExitError ''exit status 1'')),
     Wait := (\<lambda>c. Some (ExitError ''exit status 1''))\<rparr>"

definition svc_job :: Service where
  "svc_job = Service_zero\<lparr>Name := ''job'', Type := ''simple'', Startup := ''jobd'',
     Shutdown := ''jobctl stop''\<rparr>"

definition svc_probe :: Service where
  "svc_probe = Service_zero\<lparr>Name := ''probe'', Type := ''forking'', Startup := ''probed'',
     CheckAlive := ''pgrep probed''\<rparr>"

definition svc_nostop :: Service where
  "svc_nostop = Service_zero\<lparr>Name := ''nostop'', Type := ''simple'', State := Started,
     Startup := ''nostopd'', LastKnownPID := 555\<rparr>"

definition sys_jobs :: sys where
  "sys_jobs = \<lparr>LoadedServices = [''job'' \<mapsto> svc_job, ''probe'' \<mapsto> svc_probe,
     ''nostop'' \<mapsto> svc_nostop], trace = []\<rparr>"

text \<open>
  The reading of a PID file in the words of the specification, to be compared with
  \<open>getProcessPid\<close>: the contents, trimmed of white space, read as a positive integer.
\<close>

definition spec_positive_pid :: "string \<Rightarrow> int option" where
  "spec_positive_pid d =
     (case Atoi (TrimSpace d) of Inl err \<Rightarrow> None | Inr v \<Rightarrow> if 0 < v then Some v else None)"

definition os_missing :: os where
  "os_missing = os_quiet\<lparr>Stat := (\<lambda>p. Some (NotExist (''stat '' @ p @ '': no such file or directory'')))\<rparr>"

definition os_4242 :: os where
  "os_4242 = os_quiet\<lparr>ReadFile := (\<lambda>p. Inr ''  4242\<newline>'')\<rparr>"

definition os_abc :: os where
  "os_abc = os_quiet\<lparr>ReadFile := (\<lambda>p. Inr ''abc'')\<rparr>"

definition os_negative :: os where
  "os_negative = os_quiet\<lparr>ReadFile := (\<lambda>p. Inr ''-5'')\<rparr>"

definition svc_forking :: Service where
  "svc_forking = Service_zero\<lparr>Type := ''forking''\<rparr>"

definition any_name :: "string \<Rightarrow> bool" where
  "any_name x = True"

section \<open>Properties\<close>

subsection \<open>The reap race of Start\<close>

text \<open>
  Claim C3. When \<^verbatim>\<open>Start\<close> runs the startup command of a service that is not started
  and the run fails with an error whose text is one of the two ``no child processes''
  texts, the record of the registry becomes \<open>Started\<close> and no error is returned; with
  any other error of the run the record becomes \<open>Errored\<close> and that error is returned.
\<close>

theorem Start_reap_race:
  assumes "State s = NotStarted"
    and "LoadedServices \<sigma> (Name s) = Some r"
    and "Run os (Startup s) = Some err"
  shows "Service_Start os t0 t1 s \<sigma> =
     (if Error err = errWaitNoChild \<or> Error err = errWaitIDNoChild
      then Some (None,
             \<sigma>\<lparr>LoadedServices := (LoadedServices \<sigma>)(Name s \<mapsto>
                  r\<lparr>State := Started, LastActionAt := t1, LastAction := Start\<rparr>),
               trace := trace \<sigma> @ [RunStartup (Startup s)]\<rparr>)
      else Some (Some err,
             \<sigma>\<lparr>LoadedServices := (LoadedServices \<sigma>)(Name s \<mapsto>
                  r\<lparr>State := Errored, LastActionAt := t1, LastAction := Start\<rparr>),
               trace := trace \<sigma> @ [RunStartup (Startup s)]\<rparr>))"
  using assms by (simp add: Service_Start_def update_loaded_def log_event_def)

theorem Start_reap_race_witness:
  "State svc_db = NotStarted \<and> LoadedServices sys_boot (Name svc_db) = Some svc_db
   \<and> Run os_reaped (Startup svc_db) = Some (SysError ''wait: no child processes'')
   \<and> Service_Start os_reaped 10 11 svc_db sys_boot =
       Some (None, sys_boot\<lparr>LoadedServices := (LoadedServices sys_boot)(''db'' \<mapsto>
                  svc_db\<lparr>State := Started, LastActionAt := 11, LastAction := Start\<rparr>),
               trace := [RunStartup ''dbd --daemon'']\<rparr>)"
proof -
  have a: "State svc_db = NotStarted" by (simp add: svc_db_def Service_zero_def)
  have b: "LoadedServices sys_boot (Name svc_db) = Some svc_db"
    by (simp add: sys_boot_def svc_db_def)
  have c: "Run os_reaped (Startup svc_db) = Some (SysError ''wait: no child processes'')"
    by (simp add: os_reaped_def)
  show ?thesis
    using Start_reap_race [OF a b c, of 10 11] a b c
    by (simp add: errWaitNoChild_def svc_db_def sys_boot_def)
qed

subsection \<open>The guard of Start and the conflict of CheckAndStart\<close>

text \<open>When no strategy applies the probe answers with an error, and that error is what
  \<^verbatim>\<open>CheckAndStartService\<close> returns; nothing is started.\<close>

lemma CheckAndStart_indeterminate:
  assumes "PIDFile s = []" and "CheckAlive s = []" and "Type s \<noteq> ''simple''"
  shows "checkIfProcessAlive os s \<sigma> = ((True, 0, Some (Errorf ''cannot determine process state'')), \<sigma>)
       \<and> CheckAndStartService os t0 t1 s \<sigma> =
           Some (Some (Errorf ''cannot determine process state''), \<sigma>)"
  using assms by (simp add: CheckAndStartService_def checkIfProcessAlive_def)

lemma checkIfProcessAlive_registry:
  "checkIfProcessAlive os s \<sigma> = (r, \<sigma>') \<Longrightarrow>
     LoadedServices \<sigma>' = LoadedServices \<sigma> \<and>
     (trace \<sigma>' = trace \<sigma> \<or> trace \<sigma>' = trace \<sigma> @ [RunCheckAlive (CheckAlive s)])"
  by (auto simp: checkIfProcessAlive_def processAliveByCmd_def log_event_def Let_def
      split: if_splits prod.splits option.splits)

text \<open>
  Claim C4. \<^verbatim>\<open>Start\<close> on a service whose state is not \<open>NotStarted\<close> returns the
  error that reports the state and leaves the whole state as it was. When the probe
  reports the service alive (and no error), \<^verbatim>\<open>CheckAndStartService\<close> returns the
  error ``already running'', with the pid when the probe knows one; the registry is
  unchanged and the only command that may have run is the probe's own.
\<close>

theorem Start_guard_and_conflict:
  "(State s \<noteq> NotStarted \<longrightarrow>
      Service_Start os t0 t1 s \<sigma> =
        Some (Some (Errorf (''Service '' @ Name s @ '' is '' @ RunState_String (State s))), \<sigma>))
   \<and> (checkIfProcessAlive os s \<sigma> = ((True, pid, None), \<sigma>') \<longrightarrow>
        CheckAndStartService os t0 t1 s \<sigma> =
          Some (Some (Errorf (if pid \<noteq> 0
                              then ''process '' @ Name s @ '' already running as PID '' @ itoa pid
                              else ''process '' @ Name s @ '' already running'')), \<sigma>')
        \<and> LoadedServices \<sigma>' = LoadedServices \<sigma>
        \<and> (trace \<sigma>' = trace \<sigma> \<or> trace \<sigma>' = trace \<sigma> @ [RunCheckAlive (CheckAlive s)]))"
proof (intro conjI impI)
  assume "State s \<noteq> NotStarted"
  then show "Service_Start os t0 t1 s \<sigma> =
        Some (Some (Errorf (''Service '' @ Name s @ '' is '' @ RunState_String (State s))), \<sigma>)"
    by (simp add: Service_Start_def)
next
  assume p: "checkIfProcessAlive os s \<sigma> = ((True, pid, None), \<sigma>')"
  then show "CheckAndStartService os t0 t1 s \<sigma> =
          Some (Some (Errorf (if pid \<noteq> 0
                              then ''process '' @ Name s @ '' already running as PID '' @ itoa pid
                              else ''process '' @ Name s @ '' already running'')), \<sigma>')"
    by (simp add: CheckAndStartService_def)
  from p show "LoadedServices \<sigma>' = LoadedServices \<sigma>"
    by (rule checkIfProcessAlive_registry [THEN conjunct1])
  from p show "trace \<sigma>' = trace \<sigma> \<or> trace \<sigma>' = trace \<sigma> @ [RunCheckAlive (CheckAlive s)]"
    by (rule checkIfProcessAlive_registry [THEN conjunct2])
qed

lemma TrimSpace_999: "TrimSpace ''999\<newline>'' = ''999''"
  by (simp add: TrimSpace_def white_space_def TrimLeftSpace.simps)

lemma Atoi_999: "Atoi ''999'' = Inr 999"
  by (simp add: Atoi_def is_digit_def digit_val_def)

lemma itoa_999: "itoa 999 = ''999''"
  by (simp add: itoa_def digits.simps)

lemma probe_web: "checkIfProcessAlive os_quiet svc_web sys_boot = ((True, 999, None), sys_boot)"
  by (simp add: checkIfProcessAlive_def svc_web_def os_quiet_def getProcessPid_def
      processAliveByPid_def TrimSpace_999 Atoi_999)

theorem Start_guard_and_conflict_witness:
  "State svc_web \<noteq> NotStarted
   \<and> checkIfProcessAlive os_quiet svc_web sys_boot = ((True, 999, None), sys_boot)
   \<and> Service_Start os_quiet 10 11 svc_web sys_boot =
       Some (Some (Errorf ''Service web is already started''), sys_boot)
   \<and> CheckAndStartService os_quiet 10 11 svc_web sys_boot =
       Some (Some (Errorf ''process web already running as PID 999''), sys_boot)"
proof -
  have a: "State svc_web \<noteq> NotStarted" by (simp add: svc_web_def)
  show ?thesis
    using Start_guard_and_conflict [of svc_web os_quiet 10 11 sys_boot 999 sys_boot] a probe_web
    by (simp add: itoa_999) (simp add: svc_web_def)
qed

subsection \<open>The wait loop of the launcher\<close>

lemma needs_loop_all: "needs_loop needs st = (\<forall>t\<in>set needs. st t)"
  by (induction needs) auto

lemma wait_loop_satisfied: "wait_loop obs s True tries slept = (True, tries, slept)"
  by (simp add: wait_loop.simps)

lemma wait_loop_find:
  "tries \<le> 60 \<Longrightarrow>
   wait_loop obs s False tries slept =
     (case find (\<lambda>i. Service_NeedsSatisfied s (obs i)) [tries..<60] of
        None \<Rightarrow> (False, 60, slept + 2 * (60 - tries))
      | Some k \<Rightarrow> (True, k + 1, slept + 2 * (k + 1 - tries)))"
proof (induction "60 - tries" arbitrary: tries slept)
  case 0
  then have "tries = 60" by simp
  then show ?case by (simp add: wait_loop.simps)
next
  case (Suc d)
  then have lt: "tries < 60" by simp
  have step: "wait_loop obs s False tries slept =
      wait_loop obs s (Service_NeedsSatisfied s (obs tries)) (tries + 1) (slept + 2)"
    using lt by (subst wait_loop.simps) simp
  have lst: "[tries..<60] = tries # [tries + 1..<60]"
    using lt by (simp add: upt_conv_Cons)
  show ?case
  proof (cases "Service_NeedsSatisfied s (obs tries)")
    case True
    then show ?thesis by (simp add: step lst wait_loop_satisfied)
  next
    case False
    have "d = 60 - (tries + 1)" using Suc.hyps(2) by simp
    moreover have "tries + 1 \<le> 60" using lt by simp
    ultimately have ih: "wait_loop obs s False (tries + 1) (slept + 2) =
      (case find (\<lambda>i. Service_NeedsSatisfied s (obs i)) [tries + 1..<60] of
        None \<Rightarrow> (False, 60, slept + 2 + 2 * (60 - (tries + 1)))
      | Some k \<Rightarrow> (True, k + 1, slept + 2 + 2 * (k + 1 - (tries + 1))))"
      using Suc.hyps(1) by blast
    have ge: "\<And>k. find (\<lambda>i. Service_NeedsSatisfied s (obs i)) [tries + 1..<60] = Some k \<Longrightarrow> tries < k"
      by (auto simp: find_Some_iff)
    show ?thesis
      using False lt ge ih by (auto simp: step lst split: option.splits)
  qed
qed

lemma wait_loop_start:
  "wait_loop obs s False 0 0 =
     (case find (\<lambda>i. Service_NeedsSatisfied s (obs i)) [0..<60] of
        None \<Rightarrow> (False, 60, 120)
      | Some k \<Rightarrow> (True, k + 1, 2 * (k + 1)))"
  using wait_loop_find [of 0 obs s 0] by (simp split: option.splits)

lemma find_upt_None: "(find P [0..<n] = None) = (\<forall>i<n. \<not> P i)"
  by (auto simp: find_None_iff)

lemma find_upt_first:
  assumes "k < n" and "P k" and "\<forall>i<k. \<not> P i"
  shows "find P [0..<n] = Some k"
proof -
  have "[0..<n] ! k = k" using assms(1) by simp
  moreover have "\<forall>j<k. \<not> P ([0..<n] ! j)" using assms by simp
  ultimately show ?thesis
    using assms by (auto simp: find_Some_iff intro!: exI [of _ k])
qed

text \<open>
  Claim C1. The wait loop of a launcher unit ends after at most 60 polls, with two
  seconds slept for each poll. When the needs are satisfied at no poll it makes all
  60 polls; it ends right after the first poll that finds every need in the map of
  started capabilities. \<^verbatim>\<open>NeedsSatisfied\<close> holds exactly when every tag of
  \<^verbatim>\<open>Needs\<close> is in the map. What the unit does after the loop is the start step,
  taken whatever the loop has found: for an auto-start service that is not started
  the step calls \<^verbatim>\<open>Start\<close> (oneshot, forking) or starts the goroutine of
  \<^verbatim>\<open>StartSimple\<close> (simple).
\<close>

theorem wait_bounded_then_start:
  "(\<exists>satisfied tries. wait_loop obs s False 0 0 = (satisfied, tries, 2 * tries) \<and> tries \<le> 60)
   \<and> ((\<forall>i<60. \<not> Service_NeedsSatisfied s (obs i)) \<longrightarrow>
        wait_loop obs s False 0 0 = (False, 60, 120))
   \<and> (k < 60 \<and> Service_NeedsSatisfied s (obs k) \<and> (\<forall>i<k. \<not> Service_NeedsSatisfied s (obs i)) \<longrightarrow>
        wait_loop obs s False 0 0 = (True, k + 1, 2 * (k + 1)))
   \<and> Service_NeedsSatisfied s st = (\<forall>t\<in>set (Needs s). st t)
   \<and> (LoadedServices \<sigma> n = Some s \<longrightarrow>
        launcher os t0 t1 obs started n \<sigma> =
          map_option (\<lambda>\<sigma>1. (wait_loop obs s False 0 0, mark_provided (Provides s) (started, \<sigma>1)))
            (start_step os t0 t1 s \<sigma>))
   \<and> (State s = NotStarted \<and> AutoStart s \<and> (Type s = ''oneshot'' \<or> Type s = ''forking'') \<longrightarrow>
        start_step os t0 t1 s \<sigma> = map_option snd (Service_Start os t0 t1 s \<sigma>))
   \<and> (State s = NotStarted \<and> AutoStart s \<and> Type s = ''simple'' \<longrightarrow>
        start_step os t0 t1 s \<sigma> = Some (log_event (GoStartSimple (Name s)) \<sigma>))"
proof (intro conjI impI)
  show "\<exists>satisfied tries. wait_loop obs s False 0 0 = (satisfied, tries, 2 * tries) \<and> tries \<le> 60"
  proof (cases "find (\<lambda>i. Service_NeedsSatisfied s (obs i)) [0..<60]")
    case None
    then have "wait_loop obs s False 0 0 = (False, 60, 2 * 60)" by (simp add: wait_loop_start)
    then show ?thesis by blast
  next
    case (Some k)
    then have "k < 60" by (auto simp: find_Some_iff)
    with Some have "wait_loop obs s False 0 0 = (True, k + 1, 2 * (k + 1)) \<and> k + 1 \<le> 60"
      by (simp add: wait_loop_start)
    then show ?thesis by blast
  qed
next
  assume "\<forall>i<60. \<not> Service_NeedsSatisfied s (obs i)"
  then have "find (\<lambda>i. Service_NeedsSatisfied s (obs i)) [0..<60] = None"
    by (simp add: find_upt_None)
  then show "wait_loop obs s False 0 0 = (False, 60, 120)"
    by (simp add: wait_loop_start)
next
  assume "k < 60 \<and> Service_NeedsSatisfied s (obs k) \<and> (\<forall>i<k. \<not> Service_NeedsSatisfied s (obs i))"
  then have "find (\<lambda>i. Service_NeedsSatisfied s (obs i)) [0..<60] = Some k"
    by (intro find_upt_first) auto
  then show "wait_loop obs s False 0 0 = (True, k + 1, 2 * (k + 1))"
    by (simp add: wait_loop_start)
next
  show "Service_NeedsSatisfied s st = (\<forall>t\<in>set (Needs s). st t)"
    by (simp add: Service_NeedsSatisfied_def needs_loop_all)
next
  assume "LoadedServices \<sigma> n = Some s"
  then show "launcher os t0 t1 obs started n \<sigma> =
          map_option (\<lambda>\<sigma>1. (wait_loop obs s False 0 0, mark_provided (Provides s) (started, \<sigma>1)))
            (start_step os t0 t1 s \<sigma>)"
    by (simp add: launcher_def split: option.splits)
next
  assume "State s = NotStarted \<and> AutoStart s \<and> (Type s = ''oneshot'' \<or> Type s = ''forking'')"
  then show "start_step os t0 t1 s \<sigma> = map_option snd (Service_Start os t0 t1 s \<sigma>)"
    by (simp add: start_step_def)
next
  assume "State s = NotStarted \<and> AutoStart s \<and> Type s = ''simple''"
  then show "start_step os t0 t1 s \<sigma> = Some (log_event (GoStartSimple (Name s)) \<sigma>)"
    by (simp add: start_step_def)
qed

lemma svc_dns_never: "\<forall>i<60. \<not> Service_NeedsSatisfied svc_dns (obs_never i)"
  by (simp add: Service_NeedsSatisfied_def svc_dns_def obs_never_def)

lemma svc_dns_late:
  "(3::nat) < 60 \<and> Service_NeedsSatisfied svc_dns (obs_late 3)
     \<and> (\<forall>i<3. \<not> Service_NeedsSatisfied svc_dns (obs_late i))"
  by (simp add: Service_NeedsSatisfied_def svc_dns_def obs_late_def)

lemma svc_dns_start:
  "Service_Start os_quiet 10 11 svc_dns sys_dns =
     Some (None, \<lparr>LoadedServices = [''dns'' \<mapsto>
                     svc_dns\<lparr>State := Started, LastActionAt := 11, LastAction := Start\<rparr>],
                  trace = [RunStartup ''named'']\<rparr>)"
  by (simp add: Service_Start_def svc_dns_def sys_dns_def Service_zero_def os_quiet_def
      update_loaded_def log_event_def)

theorem wait_bounded_then_start_witness:
  "wait_loop obs_never svc_dns False 0 0 = (False, 60, 120)
   \<and> wait_loop obs_late svc_dns False 0 0 = (True, 4, 8)
   \<and> launcher os_quiet 10 11 obs_never started_none ''dns'' sys_dns =
       Some ((False, 60, 120), started_none(''dns'' := True),
             \<lparr>LoadedServices = [''dns'' \<mapsto>
                 svc_dns\<lparr>State := Started, LastActionAt := 11, LastAction := Start\<rparr>],
              trace = [RunStartup ''named'', SetStarted ''dns'']\<rparr>)"
proof -
  have reg: "LoadedServices sys_dns ''dns'' = Some svc_dns"
    by (simp add: sys_dns_def)
  have auto_start: "State svc_dns = NotStarted \<and> AutoStart svc_dns
      \<and> (Type svc_dns = ''oneshot'' \<or> Type svc_dns = ''forking'')"
    by (simp add: svc_dns_def Service_zero_def)
  have prov: "Provides svc_dns = [''dns'']"
    by (simp add: svc_dns_def)
  show ?thesis
    using wait_bounded_then_start [of obs_never svc_dns 3 started_none sys_dns "''dns''" os_quiet 10 11 started_none]
      wait_bounded_then_start [of obs_late svc_dns 3 started_none sys_dns "''dns''" os_quiet 10 11 started_none]
      svc_dns_never svc_dns_late reg auto_start
    by (simp add: svc_dns_start prov log_event_def)
qed

subsection \<open>The marking of the provided capabilities\<close>

lemma mark_provided_eq:
  "mark_provided ts (started, \<sigma>) =
     ((\<lambda>t. started t \<or> t \<in> set ts), \<sigma>\<lparr>trace := trace \<sigma> @ map SetStarted ts\<rparr>)"
proof (induction ts arbitrary: started \<sigma>)
  case Nil
  then show ?case by simp
next
  case (Cons t ts)
  have "(\<lambda>x. (started(t := True)) x \<or> x \<in> set ts) = (\<lambda>x. started x \<or> x \<in> set (t # ts))"
    by (auto simp: fun_eq_iff)
  then show ?case by (simp add: Cons.IH log_event_def)
qed

lemma Service_Start_total:
  "LoadedServices \<sigma> (Name s) = Some r \<Longrightarrow> \<exists>e \<sigma>1. Service_Start os t0 t1 s \<sigma> = Some (e, \<sigma>1)"
  by (auto simp: Service_Start_def update_loaded_def log_event_def Let_def split: option.splits)

lemma start_step_total:
  "LoadedServices \<sigma> (Name s) = Some r \<Longrightarrow> \<exists>\<sigma>1. start_step os t0 t1 s \<sigma> = Some \<sigma>1"
  using Service_Start_total [of \<sigma> s r os t0 t1] by (auto simp: start_step_def)

lemma count_list_concat: "count_list (concat xss) x = sum_list (map (\<lambda>xs. count_list xs x) xss)"
  by (induction xss) auto

text \<open>
  Claim C2, as amended. A launcher unit whose record is in the registry under its own
  name always reaches the marking: whatever the start step has done (nothing, a start
  that succeeded, a start that failed), the unit then writes each tag of \<^verbatim>\<open>Provides\<close>
  once, in order, after every event of the start step, and the map holds these tags
  from then on. \<^verbatim>\<open>StartServices\<close> starts one unit for each entry of the record in
  the index \<^verbatim>\<open>StartupServices\<close>, so the number of markings of a record is the
  number of its entries there, not one.
\<close>

theorem provides_marked_by_each_unit:
  assumes "LoadedServices \<sigma> n = Some s" and "Name s = n"
  shows "(\<exists>w \<sigma>1. start_step os t0 t1 s \<sigma> = Some \<sigma>1
            \<and> launcher os t0 t1 obs started n \<sigma> =
                Some (w, (\<lambda>t. started t \<or> t \<in> set (Provides s)),
                      \<sigma>1\<lparr>trace := trace \<sigma>1 @ map SetStarted (Provides s)\<rparr>))
         \<and> count_list (StartServices_units StartupServices) n =
             sum_list (map (\<lambda>(t, services). count_list (map Name_ss services) n) StartupServices)"
proof
  from assms obtain \<sigma>1 where st: "start_step os t0 t1 s \<sigma> = Some \<sigma>1"
    using start_step_total [of \<sigma> s s os t0 t1] by auto
  with assms(1) have "launcher os t0 t1 obs started n \<sigma> =
      Some (wait_loop obs s False 0 0, (\<lambda>t. started t \<or> t \<in> set (Provides s)),
            \<sigma>1\<lparr>trace := trace \<sigma>1 @ map SetStarted (Provides s)\<rparr>)"
    by (simp add: launcher_def mark_provided_eq)
  with st show "\<exists>w \<sigma>1. start_step os t0 t1 s \<sigma> = Some \<sigma>1
            \<and> launcher os t0 t1 obs started n \<sigma> =
                Some (w, (\<lambda>t. started t \<or> t \<in> set (Provides s)),
                      \<sigma>1\<lparr>trace := trace \<sigma>1 @ map SetStarted (Provides s)\<rparr>)"
    by blast
next
  show "count_list (StartServices_units StartupServices) n =
      sum_list (map (\<lambda>(t, services). count_list (map Name_ss services) n) StartupServices)"
    by (simp add: StartServices_units_def count_list_concat comp_def case_prod_unfold)
qed

lemma svc_net_start:
  "Service_Start os_quiet 10 11 svc_net sys_net =
     Some (None, \<lparr>LoadedServices = [''net'' \<mapsto>
                     svc_net\<lparr>State := Started, LastActionAt := 11, LastAction := Start\<rparr>],
                  trace = [RunStartup ''ifup'']\<rparr>)"
  by (simp add: Service_Start_def svc_net_def sys_net_def Service_zero_def os_quiet_def
      update_loaded_def log_event_def)

lemma svc_net_step:
  "start_step os_quiet 10 11 svc_net sys_net =
     Some \<lparr>LoadedServices = [''net'' \<mapsto>
              svc_net\<lparr>State := Started, LastActionAt := 11, LastAction := Start\<rparr>],
           trace = [RunStartup ''ifup'']\<rparr>"
  by (simp add: start_step_def svc_net_start) (simp add: svc_net_def Service_zero_def)

theorem provides_marked_by_each_unit_witness:
  "LoadedServices sys_net ''net'' = Some svc_net \<and> Name svc_net = ''net''
   \<and> map_option (trace \<circ> snd \<circ> snd) (launcher os_quiet 10 11 obs_never started_none ''net'' sys_net) =
       Some [RunStartup ''ifup'', SetStarted ''net'', SetStarted ''dns'']
   \<and> count_list (StartServices_units index_net) ''net'' = 2"
proof -
  have a: "LoadedServices sys_net ''net'' = Some svc_net" by (simp add: sys_net_def)
  have b: "Name svc_net = ''net''" by (simp add: svc_net_def)
  have c: "Provides svc_net = [''net'', ''dns'']" by (simp add: svc_net_def)
  show ?thesis
    using provides_marked_by_each_unit [OF a b, of os_quiet 10 11 obs_never started_none index_net] a b
    by (auto simp: svc_net_step c index_net_def startup_net_def)
qed

text \<open>
  Claim C2 as stated fails for a service that provides two capabilities: it stands in
  two lists of the index, two units are started for it, and its tags are written
  twice.
\<close>

theorem provides_marked_twice:
  "StartServices_units index_net = [''net'', ''net'']
   \<and> map_option (trace \<circ> snd)
       (run_units os_quiet 10 11 (StartServices_units index_net) (started_none, sys_net)) =
       Some [RunStartup ''ifup'', SetStarted ''net'', SetStarted ''dns'',
             SetStarted ''net'', SetStarted ''dns'']"
proof -
  have reg: "LoadedServices sys_net ''net'' = Some svc_net" by (simp add: sys_net_def)
  have prov: "Provides svc_net = [''net'', ''dns'']" by (simp add: svc_net_def)
  have units: "StartServices_units index_net = [''net'', ''net'']"
    by (simp add: StartServices_units_def index_net_def startup_net_def)
  have first: "launcher os_quiet 10 11 (\<lambda>i. started_none) started_none ''net'' sys_net =
      Some (wait_loop (\<lambda>i. started_none) svc_net False 0 0,
        (\<lambda>t. started_none t \<or> t \<in> set [''net'', ''dns'']),
        \<lparr>LoadedServices = [''net'' \<mapsto>
              svc_net\<lparr>State := Started, LastActionAt := 11, LastAction := Start\<rparr>],
           trace = [RunStartup ''ifup'', SetStarted ''net'', SetStarted ''dns'']\<rparr>)"
    by (simp add: launcher_def reg svc_net_step mark_provided_eq prov)
  have second: "launcher os_quiet 10 11 (\<lambda>i. st) st ''net''
        \<lparr>LoadedServices = [''net'' \<mapsto>
              svc_net\<lparr>State := Started, LastActionAt := 11, LastAction := Start\<rparr>],
           trace = [RunStartup ''ifup'', SetStarted ''net'', SetStarted ''dns'']\<rparr> =
      Some (wait_loop (\<lambda>i. st)
              (svc_net\<lparr>State := Started, LastActionAt := 11, LastAction := Start\<rparr>) False 0 0,
        (\<lambda>t. st t \<or> t \<in> set [''net'', ''dns'']),
        \<lparr>LoadedServices = [''net'' \<mapsto>
              svc_net\<lparr>State := Started, LastActionAt := 11, LastAction := Start\<rparr>],
           trace = [RunStartup ''ifup'', SetStarted ''net'', SetStarted ''dns'',
             SetStarted ''net'', SetStarted ''dns'']\<rparr>)" for st
    by (simp add: launcher_def start_step_def mark_provided_eq prov)
  show ?thesis
    by (simp add: units first second)
qed

subsection \<open>The exit of a simple service\<close>

lemma StartSimple_exit_stopped:
  assumes "LoadedServices \<sigma> (Name s) = Some r"
  shows "\<exists>\<sigma>' r'. StartSimple_exit os t1 s \<sigma> = Some \<sigma>' \<and> LoadedServices \<sigma>' (Name s) = Some r'
           \<and> State r' = Stopped \<and> LastKnownPID r' = 0
           \<and> (Wait os (Startup s) = None \<longrightarrow> LastAction r' = Stop \<and> LastActionAt r' = t1)
           \<and> (Wait os (Startup s) \<noteq> None \<longrightarrow>
                 LastAction r' = LastAction r \<and> LastActionAt r' = LastActionAt r)"
  using assms by (auto simp: StartSimple_exit_def update_loaded_def split: option.splits)

text \<open>
  Claim C5 at a simple service whose process is launched and then leaves with status
  1: the record becomes \<open>Stopped\<close> with pid 0 and the message of the error, but its
  last action is still \<open>Start\<close> with the time of the start. Only the branch for an
  exit without error writes \<open>Stop\<close> and the time.
\<close>

theorem StartSimple_exit_status_keeps_last_action:
  "map_option (\<lambda>\<sigma>. LoadedServices \<sigma> ''job'') (Service_StartSimple os_exit1 10 20 svc_job sys_jobs) =
     Some (Some (svc_job\<lparr>State := Stopped, LastAction := Start, LastActionAt := 10,
                   LastMessage := ''exit status 1'', LastKnownPID := 0\<rparr>))"
  by (simp add: Service_StartSimple_def StartSimple_launch_def StartSimple_exit_def
      update_loaded_def log_event_def os_exit1_def os_quiet_def sys_jobs_def svc_job_def
      Service_zero_def)

subsection \<open>The exit status of a shell command\<close>

lemma ExecShutdown_error: "fst (ExecShutdown os command \<sigma>) = Run os command"
  by (cases "Run os command") (simp_all add: ExecShutdown_def Let_def)

lemma processAliveByCmd_error:
  "fst (processAliveByCmd os command \<sigma>) = (Run os command = None, Run os command)"
  by (cases "Run os command") (simp_all add: processAliveByCmd_def Let_def)

text \<open>
  Claim C6 at a shutdown command that leaves with status 1: \<^verbatim>\<open>ExecShutdown\<close> returns
  the error of the run. The branch that would turn an exit status into \<^verbatim>\<open>nil\<close> comes
  after the return of every error that is not nil.
\<close>

theorem ExecShutdown_returns_exit_status:
  "ExecShutdown os_exit1 ''jobctl stop'' sys_jobs =
     (Some (ExitError ''exit status 1''), sys_jobs\<lparr>trace := [RunShutdown ''jobctl stop'']\<rparr>)"
  by (simp add: ExecShutdown_def log_event_def os_exit1_def sys_jobs_def)

text \<open>
  Claim C7 at a check command that leaves with status 1: \<^verbatim>\<open>processAliveByCmd\<close>
  returns the error of the run, and so does the probe. The branch that would answer
  ``not alive'' without an error comes after the return of every error that is not nil.
\<close>

theorem probe_returns_exit_status:
  "processAliveByCmd os_exit1 ''pgrep probed'' sys_jobs =
     ((False, Some (ExitError ''exit status 1'')), sys_jobs\<lparr>trace := [RunCheckAlive ''pgrep probed'']\<rparr>)
   \<and> checkIfProcessAlive os_exit1 svc_probe sys_jobs =
     ((False, 0, Some (ExitError ''exit status 1'')), sys_jobs\<lparr>trace := [RunCheckAlive ''pgrep probed'']\<rparr>)"
  by (simp add: checkIfProcessAlive_def processAliveByCmd_def log_event_def os_exit1_def
      sys_jobs_def svc_probe_def Service_zero_def)

subsection \<open>Stopping a simple service that has no shutdown command\<close>

text \<open>Whatever the pid, the command of the fall-back is \<^verbatim>\<open>pkill\<close> with the pid as
  its argument, and its error is the one returned.\<close>

lemma CheckAndStop_fallback_command:
  assumes "Type s = ''simple''" and "State s = Starting \<or> State s = Started"
    and "Shutdown s = []" and "LoadedServices \<sigma> (Name s) = Some r"
  shows "\<exists>\<sigma>'. CheckAndStopService os t s \<sigma> =
            Some (Run os (''pkill '' @ itoa (LastKnownPID s)), \<sigma>')
          \<and> trace \<sigma>' = trace \<sigma> @ [RunShutdown (''pkill '' @ itoa (LastKnownPID s))]"
  using assms
  by (cases "Run os (''pkill '' @ itoa (LastKnownPID s))")
    (auto simp: CheckAndStopService_def stop_outcome_def ExecShutdown_def update_loaded_def
      log_event_def Let_def)

lemma itoa_555: "itoa 555 = ''555''"
  by (simp add: itoa_def digits.simps)

text \<open>
  Claim C9 at a simple service in state \<open>Started\<close> with no shutdown command and
  \<^verbatim>\<open>LastKnownPID = 555\<close>: the one command that is run is the shell command
  \<^verbatim>\<open>pkill 555\<close>.
\<close>

theorem CheckAndStop_runs_pkill:
  "CheckAndStopService os_quiet 30 svc_nostop sys_jobs =
     Some (None, sys_jobs\<lparr>LoadedServices := (LoadedServices sys_jobs)(''nostop'' \<mapsto>
                   svc_nostop\<lparr>State := Stopped, LastActionAt := 30, LastAction := Stop\<rparr>),
                 trace := [RunShutdown ''pkill 555'']\<rparr>)"
  by (simp add: CheckAndStopService_def stop_outcome_def ExecShutdown_def update_loaded_def
      log_event_def itoa_555 os_quiet_def sys_jobs_def svc_nostop_def Service_zero_def)

subsection \<open>The probe of a PID file\<close>

lemma TrimSpace_4242: "TrimSpace ''  4242\<newline>'' = ''4242''"
  by (simp add: TrimSpace_def white_space_def TrimLeftSpace.simps)

lemma Atoi_4242: "Atoi ''4242'' = Inr 4242"
  by (simp add: Atoi_def is_digit_def digit_val_def)

lemma TrimSpace_abc: "TrimSpace ''abc'' = ''abc''"
  by (simp add: TrimSpace_def white_space_def TrimLeftSpace.simps)

lemma Atoi_abc: "Atoi ''abc'' = Inl (SysError ''invalid syntax'')"
  by (simp add: Atoi_def is_digit_def digit_val_def)

lemma TrimSpace_negative: "TrimSpace ''-5'' = ''-5''"
  by (simp add: TrimSpace_def white_space_def TrimLeftSpace.simps)

lemma Atoi_negative: "Atoi ''-5'' = Inr (- 5)"
  by (simp add: Atoi_def is_digit_def digit_val_def)

text \<open>
  Claim C8, as amended. For a service with a PID file: when the file does not exist
  the probe answers ``not alive'', pid 0, no error. Otherwise the contents that were
  read, trimmed of white space, are read by \<^verbatim>\<open>strconv.Atoi\<close> as a decimal integer
  with an optional sign: when that succeeds the number is the pid (the contents
  \<^verbatim>\<open>"  4242\n"\<close> give 4242), a pid of 0 is then refused with an error and any other
  pid is looked up in the process table; when it fails (as for \<^verbatim>\<open>"abc"\<close>) the probe
  returns the error ``error parsing pid''.
\<close>

theorem pidfile_probe:
  assumes "PIDFile s \<noteq> []"
  shows "(IsNotExist (Stat os (PIDFile s)) \<longrightarrow>
            checkIfProcessAlive os s \<sigma> = ((False, 0, None), \<sigma>))
       \<and> (\<not> IsNotExist (Stat os (PIDFile s)) \<and> ReadFile os (PIDFile s) = Inr d
            \<and> Atoi (TrimSpace d) = Inr pid \<longrightarrow>
            getProcessPid os s = (pid, None)
            \<and> checkIfProcessAlive os s \<sigma> =
                (if pid = 0
                 then ((False, 0, Some (Errorf ''why are you asking me if PID 0 is alive ?'')), \<sigma>)
                 else (case FindProcess os pid of
                         Some err \<Rightarrow> ((False, 0, Some err), \<sigma>)
                       | None \<Rightarrow> ((True, pid, None), \<sigma>))))
       \<and> (\<not> IsNotExist (Stat os (PIDFile s)) \<and> ReadFile os (PIDFile s) = Inr d
            \<and> Atoi (TrimSpace d) = Inl e \<longrightarrow>
            checkIfProcessAlive os s \<sigma> =
              ((False, 0, Some (Errorf (''error parsing pid from: '' @ PIDFile s))), \<sigma>))
       \<and> Atoi (TrimSpace ''  4242\<newline>'') = Inr 4242
       \<and> Atoi (TrimSpace ''abc'') = Inl (SysError ''invalid syntax'')"
  using assms
  by (auto simp: checkIfProcessAlive_def getProcessPid_def processAliveByPid_def
      TrimSpace_4242 Atoi_4242 TrimSpace_abc Atoi_abc split: option.splits)

theorem pidfile_probe_witness:
  "PIDFile svc_web \<noteq> []
   \<and> checkIfProcessAlive os_missing svc_web sys_boot = ((False, 0, None), sys_boot)
   \<and> getProcessPid os_4242 svc_web = (4242, None)
   \<and> checkIfProcessAlive os_4242 svc_web sys_boot = ((True, 4242, None), sys_boot)
   \<and> checkIfProcessAlive os_abc svc_web sys_boot =
       ((False, 0, Some (Errorf ''error parsing pid from: /run/web.pid'')), sys_boot)"
proof -
  have a: "PIDFile svc_web \<noteq> []" by (simp add: svc_web_def)
  have p: "PIDFile svc_web = ''/run/web.pid''" by (simp add: svc_web_def)
  have m: "IsNotExist (Stat os_missing (PIDFile svc_web))" by (simp add: os_missing_def os_quiet_def)
  have x: "\<not> IsNotExist (Stat os_4242 (PIDFile svc_web))
      \<and> ReadFile os_4242 (PIDFile svc_web) = Inr ''  4242\<newline>''
      \<and> Atoi (TrimSpace ''  4242\<newline>'') = Inr 4242 \<and> FindProcess os_4242 4242 = None"
    by (simp add: os_4242_def os_quiet_def TrimSpace_4242 Atoi_4242)
  have y: "\<not> IsNotExist (Stat os_abc (PIDFile svc_web))
      \<and> ReadFile os_abc (PIDFile svc_web) = Inr ''abc''
      \<and> Atoi (TrimSpace ''abc'') = Inl (SysError ''invalid syntax'')"
    by (simp add: os_abc_def os_quiet_def TrimSpace_abc Atoi_abc)
  show ?thesis
    using pidfile_probe [OF a, of os_missing sys_boot "''''" 0 "SysError []"]
      pidfile_probe [OF a, of os_4242 sys_boot "''  4242\<newline>''" 4242 "SysError []"]
      pidfile_probe [OF a, of os_abc sys_boot "''abc''" 0 "SysError ''invalid syntax''"]
      a m x y
    by (simp add: p)
qed

text \<open>
  Claim C8 as stated fails for a PID file that holds \<^verbatim>\<open>-5\<close>: the contents are not
  a positive integer, yet the probe returns no error and reports pid \<open>-5\<close> alive when
  the lookup in the process table returns no error.
\<close>

theorem negative_pid_accepted:
  "PIDFile svc_web = ''/run/web.pid''
   \<and> Stat os_negative ''/run/web.pid'' = None
   \<and> ReadFile os_negative ''/run/web.pid'' = Inr ''-5''
   \<and> spec_positive_pid ''-5'' = None
   \<and> checkIfProcessAlive os_negative svc_web sys_boot = ((True, - 5, None), sys_boot)"
  by (simp add: spec_positive_pid_def checkIfProcessAlive_def getProcessPid_def
      processAliveByPid_def TrimSpace_negative Atoi_negative os_negative_def os_quiet_def
      svc_web_def)

subsection \<open>The Type directive\<close>

lemma Type_prefix_only:
  assumes "HasPrefix line ''Type:''"
  shows "\<not> HasPrefix line ''Needs:'' \<and> \<not> HasPrefix line ''Provides:''
       \<and> \<not> HasPrefix line ''Startup:'' \<and> \<not> HasPrefix line ''Shutdown:''
       \<and> \<not> HasPrefix line ''Name:'' \<and> \<not> HasPrefix line ''Description:''
       \<and> \<not> HasPrefix line ''PIDFile:''"
  using assms by (cases line) (auto simp: HasPrefix_def)

lemma parseLine_Type_line:
  assumes "HasPrefix line ''Type:''"
  shows "parseLine line s =
     (if Type s = [] then
        (let serviceType = TrimSpace (TrimPrefix line ''Type:'') in
            if serviceType = ''simple'' then (None, s\<lparr>Type := ''simple''\<rparr>)
            else if serviceType = ''forking'' then (None, s\<lparr>Type := ''forking''\<rparr>)
            else if serviceType = ''oneshot'' then (None, s\<lparr>Type := ''oneshot''\<rparr>)
            else (None, s\<lparr>Type := ''simple''\<rparr>))
      else (None, s))"
  using assms Type_prefix_only [OF assms] by (simp add: parseLine_def)

lemma parseLine_Type_cases:
  "Type (snd (parseLine line s)) = Type s
   \<or> (Type s = [] \<and> HasPrefix line ''Type:''
       \<and> Type (snd (parseLine line s)) \<in> {''simple'', ''forking'', ''oneshot''})"
  by (simp add: parseLine_def Let_def)

lemma parseLine_Type_keep:
  "Type s \<in> {''simple'', ''forking'', ''oneshot''} \<Longrightarrow>
   Type (snd (parseLine line s)) \<in> {''simple'', ''forking'', ''oneshot''}"
  using parseLine_Type_cases [of line s] by auto

lemma parseLine_Type_set:
  assumes "HasPrefix line ''Type:''" and "Type s \<in> {[], ''simple'', ''forking'', ''oneshot''}"
  shows "Type (snd (parseLine line s)) \<in> {''simple'', ''forking'', ''oneshot''}"
  using assms(2) by (auto simp: parseLine_Type_line [OF assms(1)] Let_def)

lemma parseLine_Type_inv:
  "Type s \<in> {[], ''simple'', ''forking'', ''oneshot''} \<Longrightarrow>
   Type (snd (parseLine line s)) \<in> {[], ''simple'', ''forking'', ''oneshot''}"
  using parseLine_Type_cases [of line s] by auto

lemma parse_lines_Type_keep:
  "Type s \<in> {''simple'', ''forking'', ''oneshot''} \<Longrightarrow>
   Type (parse_lines lines s) \<in> {''simple'', ''forking'', ''oneshot''}"
proof (induction lines arbitrary: s)
  case Nil
  then show ?case by simp
next
  case (Cons l ls)
  from Cons.prems have "Type (snd (parseLine l s)) \<in> {''simple'', ''forking'', ''oneshot''}"
    by (rule parseLine_Type_keep)
  then have "Type (parse_lines ls (snd (parseLine l s))) \<in> {''simple'', ''forking'', ''oneshot''}"
    by (rule Cons.IH)
  then show ?case by simp
qed

lemma parse_lines_Type_set:
  "Type s \<in> {[], ''simple'', ''forking'', ''oneshot''} \<Longrightarrow>
   \<exists>l\<in>set lines. HasPrefix l ''Type:'' \<Longrightarrow>
   Type (parse_lines lines s) \<in> {''simple'', ''forking'', ''oneshot''}"
proof (induction lines arbitrary: s)
  case Nil
  then show ?case by simp
next
  case (Cons l ls)
  show ?case
  proof (cases "HasPrefix l ''Type:''")
    case True
    with Cons.prems(1) have "Type (snd (parseLine l s)) \<in> {''simple'', ''forking'', ''oneshot''}"
      by (intro parseLine_Type_set)
    then have "Type (parse_lines ls (snd (parseLine l s))) \<in> {''simple'', ''forking'', ''oneshot''}"
      by (rule parse_lines_Type_keep)
    then show ?thesis by simp
  next
    case False
    with Cons.prems(2) have later: "\<exists>l\<in>set ls. HasPrefix l ''Type:''" by auto
    from Cons.prems(1) have "Type (snd (parseLine l s)) \<in> {[], ''simple'', ''forking'', ''oneshot''}"
      by (rule parseLine_Type_inv)
    then have "Type (parse_lines ls (snd (parseLine l s))) \<in> {''simple'', ''forking'', ''oneshot''}"
      using later by (rule Cons.IH)
    then show ?thesis by simp
  qed
qed

lemma parse_lines_append: "parse_lines (xs @ ys) s = parse_lines ys (parse_lines xs s)"
  by (induction xs arbitrary: s) auto

text \<open>
  Claim C10, as amended. A line that starts with \<^verbatim>\<open>Type:\<close> and names none of
  simple, forking and oneshot sets the type to simple when the service has no type
  yet, and returns no error; when the service has a type already, the line changes
  nothing. So a service that \<^verbatim>\<open>ParseConfig\<close> returns for an input with such a line
  has one of the three types.
\<close>

theorem Type_directive:
  "(HasPrefix line ''Type:'' \<and> Type s = []
      \<and> TrimSpace (TrimPrefix line ''Type:'') \<notin> {''simple'', ''forking'', ''oneshot''} \<longrightarrow>
      parseLine line s = (None, s\<lparr>Type := ''simple''\<rparr>))
   \<and> (HasPrefix line ''Type:'' \<and> Type s \<noteq> [] \<longrightarrow> parseLine line s = (None, s))
   \<and> (ParseConfig IsCustASCII (lines, EOF rest) filename = (s', None)
        \<and> (\<exists>l\<in>set (lines @ [rest]). HasPrefix l ''Type:'') \<longrightarrow>
        Type s' \<in> {''simple'', ''forking'', ''oneshot''})"
proof (intro conjI impI)
  assume "HasPrefix line ''Type:'' \<and> Type s = []
      \<and> TrimSpace (TrimPrefix line ''Type:'') \<notin> {''simple'', ''forking'', ''oneshot''}"
  then show "parseLine line s = (None, s\<lparr>Type := ''simple''\<rparr>)"
    by (simp add: parseLine_Type_line)
next
  assume "HasPrefix line ''Type:'' \<and> Type s \<noteq> []"
  then show "parseLine line s = (None, s)"
    by (simp add: parseLine_Type_line)
next
  assume a: "ParseConfig IsCustASCII (lines, EOF rest) filename = (s', None)
        \<and> (\<exists>l\<in>set (lines @ [rest]). HasPrefix l ''Type:'')"
  then have s': "s' = parse_lines (lines @ [rest]) Service_zero"
    by (auto simp: ParseConfig_def parse_lines_append Let_def split: option.splits)
  have "Type Service_zero \<in> {[], ''simple'', ''forking'', ''oneshot''}"
    by (simp add: Service_zero_def)
  with a show "Type s' \<in> {''simple'', ''forking'', ''oneshot''}"
    unfolding s' by (intro parse_lines_Type_set) auto
qed

lemma TrimSpace_bogus: "TrimSpace '' bogus\<newline>'' = ''bogus''"
  by (simp add: TrimSpace_def white_space_def TrimLeftSpace.simps)

lemma TrimSpace_unit: "TrimSpace '' unit'' = ''unit''"
  by (simp add: TrimSpace_def white_space_def TrimLeftSpace.simps)

lemma parse_unit:
  "ParseConfig any_name (read_all [] ''Type: bogus\<newline>Name: unit'') ''unit.service'' =
     (Service_zero\<lparr>Type := ''simple'', Name := ''unit''\<rparr>, None)"
  by (simp add: ParseConfig_def parseLine_def HasPrefix_def TrimPrefix_def TrimSpace_bogus
      TrimSpace_unit checkSanity_def any_name_def Service_zero_def)

theorem Type_directive_witness:
  "HasPrefix ''Type: bogus\<newline>'' ''Type:''
   \<and> TrimSpace (TrimPrefix ''Type: bogus\<newline>'' ''Type:'') = ''bogus''
   \<and> parseLine ''Type: bogus\<newline>'' Service_zero = (None, Service_zero\<lparr>Type := ''simple''\<rparr>)
   \<and> parseLine ''Type: bogus\<newline>'' svc_forking = (None, svc_forking)
   \<and> read_all [] ''Type: bogus\<newline>Name: unit'' = ([''Type: bogus\<newline>''], EOF ''Name: unit'')
   \<and> Type (fst (ParseConfig any_name (read_all [] ''Type: bogus\<newline>Name: unit'') ''unit.service''))
       \<in> {''simple'', ''forking'', ''oneshot''}"
proof -
  have p: "HasPrefix ''Type: bogus\<newline>'' ''Type:''" by (simp add: HasPrefix_def)
  have t: "TrimSpace (TrimPrefix ''Type: bogus\<newline>'' ''Type:'') = ''bogus''"
    by (simp add: TrimPrefix_def HasPrefix_def TrimSpace_bogus)
  have r: "read_all [] ''Type: bogus\<newline>Name: unit'' = ([''Type: bogus\<newline>''], EOF ''Name: unit'')"
    by simp
  have z: "Type Service_zero = []" by (simp add: Service_zero_def)
  have f: "Type svc_forking \<noteq> []" by (simp add: svc_forking_def)
  show ?thesis
    using Type_directive [of "''Type: bogus\<newline>''" Service_zero any_name "[''Type: bogus\<newline>'']"
        "''Name: unit''" "''unit.service''" "Service_zero\<lparr>Type := ''simple'', Name := ''unit''\<rparr>"]
      Type_directive [of "''Type: bogus\<newline>''" svc_forking any_name "[''Type: bogus\<newline>'']"
        "''Name: unit''" "''unit.service''" "Service_zero\<lparr>Type := ''simple'', Name := ''unit''\<rparr>"]
      p t r z f parse_unit
    by simp
qed

text \<open>
  Claim C10 as stated fails for a service whose type is set already: the line
  \<^verbatim>\<open>Type: bogus\<close> leaves the type \<^verbatim>\<open>forking\<close> as it is and does not make it
  simple.
\<close>

theorem Type_line_ignored_when_set:
  "HasPrefix ''Type: bogus\<newline>'' ''Type:''
   \<and> TrimSpace (TrimPrefix ''Type: bogus\<newline>'' ''Type:'') = ''bogus''
   \<and> Type svc_forking = ''forking''
   \<and> Type (snd (parseLine ''Type: bogus\<newline>'' svc_forking)) = ''forking''"
  by (simp add: parseLine_def HasPrefix_def TrimPrefix_def TrimSpace_bogus svc_forking_def)

end
